theory Spec2Isabelle
  imports Complex_Main
begin

section \<open>The EnergyVisualization component\<close>

text \<open>
  The component (\<^verbatim>\<open>EnergyVisualization\<close>, a React function component over three.js)
  builds a scene inside one \<^verbatim>\<open>useEffect\<close>: a camera, a renderer whose canvas is appended
  to the mount element, a particle field over a \<^verbatim>\<open>Float32Array\<close>, a wireframe orb and a
  point light. The closure \<^verbatim>\<open>animate\<close> is the per-frame tick, \<^verbatim>\<open>handleResize\<close> the
  window resize listener, and the function returned by the effect is the cleanup.

  The embedding is state passing: one record holds what the closures share and what the
  browser keeps for them (the animation frame callbacks, the resize listener, the
  children of the mount element). Calls that leave the component are also appended to a
  trace, so that the order of effects inside one function can be stated.

  JavaScript numbers are modelled as reals where the code only produces finite values
  (times, angles, coordinates). The two places where the code can produce a non-finite
  number, a division of the mount's dimensions and an addition with \<^verbatim>\<open>undefined\<close>,
  use the type \<open>number\<close>. Storing into a \<^verbatim>\<open>Float32Array\<close> rounds to single
  precision: that rounding is the parameter \<open>f32\<close> of the functions below.
\<close>

subsection \<open>Numbers\<close>

datatype number = Finite real | Infinity | NaN

text \<open>\<^verbatim>\<open>clientWidth / clientHeight\<close>: both are non-negative integers.\<close>

definition js_div :: "nat \<Rightarrow> nat \<Rightarrow> number" where
  "js_div w h =
     (if h = 0 then (if w = 0 then NaN else Infinity) else Finite (real w / real h))"

fun js_add :: "number \<Rightarrow> number \<Rightarrow> number" where
  "js_add NaN y = NaN"
| "js_add x NaN = NaN"
| "js_add Infinity y = Infinity"
| "js_add x Infinity = Infinity"
| "js_add (Finite a) (Finite b) = Finite (a + b)"

subsection \<open>Energy presets\<close>

record preset =
  color :: nat
  intensity :: real

text \<open>
  \<^verbatim>\<open>energyColors\<close> is an object literal: its own properties are the three presets, and
  its prototype is \<^verbatim>\<open>Object.prototype\<close>, whose properties a lookup by key also finds.
\<close>

definition high :: preset where
  "high = \<lparr>color = 0xff6b6b, intensity = 2\<rparr>"

definition medium :: preset where
  "medium = \<lparr>color = 0x4ecdc4, intensity = 1.5\<rparr>"

definition low :: preset where
  "low = \<lparr>color = 0x95a5a6, intensity = 1\<rparr>"

definition energyColors :: "(string \<times> preset) list" where
  "energyColors = [(''high'', high), (''medium'', medium), (''low'', low)]"

definition Object_prototype :: "string list" where
  "Object_prototype =
     [''constructor'', ''__defineGetter__'', ''__defineSetter__'', ''hasOwnProperty'',
      ''__lookupGetter__'', ''__lookupSetter__'', ''isPrototypeOf'',
      ''propertyIsEnumerable'', ''toString'', ''valueOf'', ''__proto__'',
      ''toLocaleString'']"

datatype jsval = Undefined | Obj preset | Builtin string

definition get_property :: "(string \<times> preset) list \<Rightarrow> string \<Rightarrow> jsval" where
  "get_property obj key =
     (case map_of obj key of
        Some p \<Rightarrow> Obj p
      | None \<Rightarrow> if key \<in> set Object_prototype then Builtin key else Undefined)"

text \<open>
  \<^verbatim>\<open>energyColors[energyLevel] || energyColors.medium\<close>: the left operand is returned
  when it is truthy, and every object or function is.
\<close>

definition currentEnergy_of :: "string \<Rightarrow> jsval" where
  "currentEnergy_of energyLevel =
     (case get_property energyColors energyLevel of
        Undefined \<Rightarrow> Obj medium
      | v \<Rightarrow> v)"

text \<open>
  \<^verbatim>\<open>currentEnergy.color\<close> and \<^verbatim>\<open>currentEnergy.intensity\<close>; a built-in of
  \<^verbatim>\<open>Object.prototype\<close> has neither property, so that both read \<^verbatim>\<open>undefined\<close>.
\<close>

fun color_of :: "jsval \<Rightarrow> nat option" where
  "color_of (Obj p) = Some (color p)"
| "color_of v = None"

fun intensity_of :: "jsval \<Rightarrow> real option" where
  "intensity_of (Obj p) = Some (intensity p)"
| "intensity_of v = None"

text \<open>The conversion of an operand of \<^verbatim>\<open>+\<close> to a number.\<close>

fun to_number :: "real option \<Rightarrow> number" where
  "to_number (Some x) = Finite x"
| "to_number None = NaN"

text \<open>
  three.js leaves a colour that is passed as \<^verbatim>\<open>undefined\<close> at its default, white, and
  the light's intensity parameter has the default 1.
\<close>

definition color_or_default :: "nat option \<Rightarrow> nat" where
  "color_or_default c = (case c of Some x \<Rightarrow> x | None \<Rightarrow> 0xffffff)"

definition intensity_or_default :: "real option \<Rightarrow> number" where
  "intensity_or_default i = (case i of Some x \<Rightarrow> Finite x | None \<Rightarrow> Finite 1)"

subsection \<open>The state shared by the closures\<close>

datatype node = Canvas

record element =
  clientWidth :: nat
  clientHeight :: nat
  childNodes :: "node list"

text \<open>A typed array is an object: \<open>ident\<close> is its identity, \<open>data\<close> its contents.\<close>

record float32array =
  ident :: nat
  data :: "real list"

datatype resource =
  ParticlesGeometry | ParticlesMaterial | OrbGeometry | OrbMaterial | Renderer

datatype error = RenderFailure | NotFoundError

datatype event =
    AppendChild node
  | RemoveChild node
  | AddEventListener
  | RemoveEventListener
  | RequestAnimationFrame nat
  | CancelAnimationFrame nat
  | GetElapsedTime real
  | Render
  | RenderThrew
  | SetSize nat nat
  | Dispose resource

record state =
  mountRef :: "element option"
  animationIdRef :: "nat option"
  callback_identifier :: nat
  callbacks :: "nat list"
  resize_listener :: bool
  uncaught :: "error list"
  random_calls :: nat
  currentEnergy :: jsval
  camera_aspect :: number
  camera_projection :: "real \<times> number \<times> real \<times> real"
  renderer_width :: nat
  renderer_height :: nat
  renderer_pixelRatio :: real
  posArray :: float32array
  needsUpdate :: bool
  particlesMaterial_color :: nat
  particlesMesh_rotation_x :: real
  particlesMesh_rotation_y :: real
  orbMaterial_color :: nat
  orb_rotation_x :: real
  orb_rotation_y :: real
  orb_scale :: "real \<times> real \<times> real"
  light_color :: nat
  light_intensity :: number
  time :: real
  released :: "resource set"
  trace :: "event list"

text \<open>
  \<open>callback_identifier\<close> and \<open>callbacks\<close> are the window's animation frame callback
  identifier and its list of pending callbacks, each of them \<^verbatim>\<open>animate\<close>;
  \<open>resize_listener\<close> says whether \<^verbatim>\<open>handleResize\<close> is registered; \<open>uncaught\<close> are the
  exceptions that reached the browser. \<open>camera_projection\<close> holds the field of view,
  aspect, near and far plane from which the projection matrix was last computed.
\<close>

subsection \<open>The tick\<close>

definition particlesCount :: nat where
  "particlesCount = 1000"

text \<open>
  \<^verbatim>\<open>positions[i3 + 1] += Math.sin(time + positions[i3]) * 0.001\<close>. A write to a typed
  array beyond its length is ignored.
\<close>

definition write_y :: "(real \<Rightarrow> real) \<Rightarrow> real \<Rightarrow> nat \<Rightarrow> real list \<Rightarrow> real list" where
  "write_y f32 t i positions =
     (let i3 = i * 3 in
      if i3 + 1 < length positions
      then positions[i3 + 1 := f32 (positions ! (i3 + 1) + sin (t + positions ! i3) * 0.001)]
      else positions)"

function particles_loop :: "(real \<Rightarrow> real) \<Rightarrow> real \<Rightarrow> nat \<Rightarrow> real list \<Rightarrow> real list" where
  "particles_loop f32 t i positions =
     (if i < particlesCount
      then particles_loop f32 t (Suc i) (write_y f32 t i positions)
      else positions)"
  by pat_completeness auto
termination
  by (relation "measure (\<lambda>(f32, t, i, positions). particlesCount - i)") auto

declare particles_loop.simps [simp del]

text \<open>
  \<^verbatim>\<open>animate\<close>. The value of \<^verbatim>\<open>clock.getElapsedTime()\<close> is the argument \<open>sample\<close>;
  \<open>ok\<close> says whether \<^verbatim>\<open>renderer.render\<close> returns (otherwise it throws, and the
  exception leaves \<^verbatim>\<open>animate\<close>, whose last statement it is).
\<close>

definition animate :: "(real \<Rightarrow> real) \<Rightarrow> real \<Rightarrow> bool \<Rightarrow> state \<Rightarrow> state \<times> error option" where
  "animate f32 sample ok s =
     (let handle = Suc (callback_identifier s) in
      (s\<lparr>callback_identifier := handle,
         callbacks := callbacks s @ [handle],
         animationIdRef := Some handle,
         time := sample,
         particlesMesh_rotation_y := sample * 0.2,
         particlesMesh_rotation_x := sample * 0.1,
         orb_rotation_x := sample * 0.5,
         orb_rotation_y := sample * 0.3,
         orb_scale := (1 + sin sample * 0.2, 1 + sin sample * 0.2, 1 + sin sample * 0.2),
         posArray := (posArray s)\<lparr>data := particles_loop f32 sample 0 (data (posArray s))\<rparr>,
         needsUpdate := True,
         light_intensity :=
           js_add (to_number (intensity_of (currentEnergy s))) (Finite (sin (sample * 2) * 0.5)),
         trace := trace s @
           [RequestAnimationFrame handle, GetElapsedTime sample,
            if ok then Render else RenderThrew]\<rparr>,
       if ok then None else Some RenderFailure))"

subsection \<open>Resize\<close>

definition handleResize :: "state \<Rightarrow> state" where
  "handleResize s =
     (case mountRef s of
        None \<Rightarrow> s
      | Some m \<Rightarrow>
          s\<lparr>camera_aspect := js_div (clientWidth m) (clientHeight m),
            camera_projection := (75, js_div (clientWidth m) (clientHeight m), 0.1, 1000),
            renderer_width := clientWidth m,
            renderer_height := clientHeight m,
            trace := trace s @ [SetSize (clientWidth m) (clientHeight m)]\<rparr>)"

subsection \<open>Cleanup\<close>

definition release :: "state \<Rightarrow> state" where
  "release s =
     s\<lparr>released := released s \<union>
          {ParticlesGeometry, ParticlesMaterial, OrbGeometry, OrbMaterial, Renderer},
       trace := trace s @
          [Dispose ParticlesGeometry, Dispose ParticlesMaterial, Dispose OrbGeometry,
           Dispose OrbMaterial, Dispose Renderer]\<rparr>"

text \<open>\<^verbatim>\<open>if (animationIdRef.current) cancelAnimationFrame(animationIdRef.current)\<close>.\<close>

definition cancel :: "state \<Rightarrow> state" where
  "cancel s =
     (case animationIdRef s of
        None \<Rightarrow> s
      | Some handle \<Rightarrow>
          if handle = 0 then s
          else s\<lparr>callbacks := removeAll handle (callbacks s),
                 trace := trace s @ [CancelAnimationFrame handle]\<rparr>)"

text \<open>
  The function returned by the effect. \<^verbatim>\<open>removeChild\<close> throws \<^verbatim>\<open>NotFoundError\<close> when
  its argument is not a child of the element; the statements after it are then not run.
\<close>

definition dispose :: "state \<Rightarrow> state \<times> error option" where
  "dispose s =
     (let s1 = s\<lparr>resize_listener := False, trace := trace s @ [RemoveEventListener]\<rparr>;
          s2 = cancel s1
      in case mountRef s2 of
           None \<Rightarrow> (release s2, None)
         | Some m \<Rightarrow>
             if Canvas \<in> set (childNodes m)
             then (release (s2\<lparr>mountRef := Some (m\<lparr>childNodes := remove1 Canvas (childNodes m)\<rparr>),
                               trace := trace s2 @ [RemoveChild Canvas]\<rparr>), None)
             else (s2, Some NotFoundError))"

subsection \<open>Construction\<close>

text \<open>
  What the effect reads from its surroundings: the results of the successive calls of
  \<^verbatim>\<open>Math.random\<close>, \<^verbatim>\<open>window.devicePixelRatio\<close>, and the window's animation frame
  callback identifier at the time of the mount.
\<close>

record env =
  random :: "nat \<Rightarrow> real"
  devicePixelRatio :: real
  frame_identifier :: nat

text \<open>The body of the effect up to the definition of \<^verbatim>\<open>animate\<close>.\<close>

definition build_scene :: "(real \<Rightarrow> real) \<Rightarrow> env \<Rightarrow> element \<Rightarrow> string \<Rightarrow> state" where
  "build_scene f32 e m energyLevel =
     \<lparr>mountRef = Some (m\<lparr>childNodes := childNodes m @ [Canvas]\<rparr>),
      animationIdRef = None,
      callback_identifier = frame_identifier e,
      callbacks = [],
      resize_listener = False,
      uncaught = [],
      random_calls = particlesCount * 3,
      currentEnergy = currentEnergy_of energyLevel,
      camera_aspect = js_div (clientWidth m) (clientHeight m),
      camera_projection = (75, js_div (clientWidth m) (clientHeight m), 0.1, 1000),
      renderer_width = clientWidth m,
      renderer_height = clientHeight m,
      renderer_pixelRatio = devicePixelRatio e,
      posArray = \<lparr>ident = 0,
                  data = map (\<lambda>i. f32 ((random e i - 0.5) * 10)) [0..<particlesCount * 3]\<rparr>,
      needsUpdate = False,
      particlesMaterial_color = color_or_default (color_of (currentEnergy_of energyLevel)),
      particlesMesh_rotation_x = 0,
      particlesMesh_rotation_y = 0,
      orbMaterial_color = color_or_default (color_of (currentEnergy_of energyLevel)),
      orb_rotation_x = 0,
      orb_rotation_y = 0,
      orb_scale = (1, 1, 1),
      light_color = color_or_default (color_of (currentEnergy_of energyLevel)),
      light_intensity = intensity_or_default (intensity_of (currentEnergy_of energyLevel)),
      time = 0,
      released = {},
      trace = [SetSize (clientWidth m) (clientHeight m), AppendChild Canvas]\<rparr>"

text \<open>\<^verbatim>\<open>window.addEventListener('resize', handleResize)\<close>.\<close>

definition listen :: "state \<Rightarrow> state" where
  "listen s = s\<lparr>resize_listener := True, trace := trace s @ [AddEventListener]\<rparr>"

text \<open>
  The effect: nothing is built without a mount element; the first tick runs inside the
  effect, and when its draw throws, the effect is left before the listener is added and
  before a cleanup exists.
\<close>

datatype created = NoMount | Threw state | Session state

definition create ::
  "(real \<Rightarrow> real) \<Rightarrow> env \<Rightarrow> element option \<Rightarrow> string \<Rightarrow> real \<Rightarrow> bool \<Rightarrow> created" where
  "create f32 e mount energyLevel sample ok =
     (case mount of
        None \<Rightarrow> NoMount
      | Some m \<Rightarrow>
          (case animate f32 sample ok (build_scene f32 e m energyLevel) of
             (s, Some err) \<Rightarrow> Threw s
           | (s, None) \<Rightarrow> Session (listen s)))"

text \<open>The state of a session whose construction succeeded.\<close>

definition session :: "(real \<Rightarrow> real) \<Rightarrow> env \<Rightarrow> element \<Rightarrow> string \<Rightarrow> real \<Rightarrow> state" where
  "session f32 e m energyLevel sample =
     listen (fst (animate f32 sample True (build_scene f32 e m energyLevel)))"

subsection \<open>The browser\<close>

text \<open>
  A display refresh runs the pending animation frame callbacks, after emptying their
  list; an exception of a callback is reported and the next callback still runs. A
  resize changes the mount element's dimensions and calls the listener when there is
  one. React clears the ref when the element is unmounted.
\<close>

datatype host_event = Frame real bool | Resize nat nat | Detach

definition invoke :: "(real \<Rightarrow> real) \<Rightarrow> real \<Rightarrow> bool \<Rightarrow> state \<Rightarrow> state" where
  "invoke f32 sample ok s =
     (case animate f32 sample ok s of
        (s', None) \<Rightarrow> s'
      | (s', Some err) \<Rightarrow> s'\<lparr>uncaught := uncaught s' @ [err]\<rparr>)"

fun run_callbacks :: "(real \<Rightarrow> real) \<Rightarrow> real \<Rightarrow> bool \<Rightarrow> nat list \<Rightarrow> state \<Rightarrow> state" where
  "run_callbacks f32 sample ok [] s = s"
| "run_callbacks f32 sample ok (h # hs) s = run_callbacks f32 sample ok hs (invoke f32 sample ok s)"

definition resized :: "nat \<Rightarrow> nat \<Rightarrow> element \<Rightarrow> element" where
  "resized w h m = m\<lparr>clientWidth := w, clientHeight := h\<rparr>"

fun host_step :: "(real \<Rightarrow> real) \<Rightarrow> host_event \<Rightarrow> state \<Rightarrow> state" where
  "host_step f32 (Frame sample ok) s =
     run_callbacks f32 sample ok (callbacks s) (s\<lparr>callbacks := []\<rparr>)"
| "host_step f32 (Resize w h) s =
     (let s1 = s\<lparr>mountRef := map_option (resized w h) (mountRef s)\<rparr>
      in if resize_listener s1 then handleResize s1 else s1)"
| "host_step f32 Detach s = s\<lparr>mountRef := None\<rparr>"

definition run :: "(real \<Rightarrow> real) \<Rightarrow> host_event list \<Rightarrow> state \<Rightarrow> state" where
  "run f32 evs s = fold (host_step f32) evs s"

text \<open>A run of ticks alone, each with its clock sample and the outcome of its draw.\<close>

definition ticks :: "(real \<Rightarrow> real) \<Rightarrow> (real \<times> bool) list \<Rightarrow> state \<Rightarrow> state" where
  "ticks f32 samples s = fold (\<lambda>(sample, ok) s. fst (animate f32 sample ok s)) samples s"

subsection \<open>Observations and invariants\<close>

text \<open>
  A session is live from the end of the effect until its cleanup: one callback is
  pending, it is the one whose identifier the ref holds, the listener is registered,
  nothing is released and the canvas is a child of the mount element, if there is one.
\<close>

definition live :: "state \<Rightarrow> bool" where
  "live s \<longleftrightarrow>
     callbacks s = [callback_identifier s] \<and>
     animationIdRef s = Some (callback_identifier s) \<and>
     callback_identifier s \<noteq> 0 \<and>
     resize_listener s \<and>
     released s = {} \<and>
     (case mountRef s of None \<Rightarrow> True | Some m \<Rightarrow> Canvas \<in> set (childNodes m))"

text \<open>After the cleanup nothing is pending and nothing is registered.\<close>

definition stopped :: "state \<Rightarrow> bool" where
  "stopped s \<longleftrightarrow> callbacks s = [] \<and> \<not> resize_listener s"

definition viewport :: "state \<Rightarrow> number \<times> (real \<times> number \<times> real \<times> real) \<times> nat \<times> nat" where
  "viewport s = (camera_aspect s, camera_projection s, renderer_width s, renderer_height s)"

fun is_draw :: "event \<Rightarrow> bool" where
  "is_draw Render = True"
| "is_draw RenderThrew = True"
| "is_draw e = False"

text \<open>Successive calls of the cleanup; a call that throws ends the sequence.\<close>

fun dispose_times :: "nat \<Rightarrow> state \<Rightarrow> state \<times> error option" where
  "dispose_times 0 s = (s, None)"
| "dispose_times (Suc n) s =
     (case dispose s of
        (s', None) \<Rightarrow> dispose_times n s'
      | (s', Some err) \<Rightarrow> (s', Some err))"

text \<open>A session after its cleanup, which cancelled the callback \<open>h\<close>.\<close>

definition cleaned :: "nat \<Rightarrow> state \<Rightarrow> bool" where
  "cleaned h s \<longleftrightarrow>
     stopped s \<and> animationIdRef s = Some h \<and> h \<noteq> 0 \<and>
     released s = {ParticlesGeometry, ParticlesMaterial, OrbGeometry, OrbMaterial, Renderer}"

text \<open>A concrete session: an 800 by 600 mount element, the preset \<^verbatim>\<open>medium\<close>.\<close>

definition example_env :: env where
  "example_env = \<lparr>random = (\<lambda>i. 1 / 2), devicePixelRatio = 1, frame_identifier = 0\<rparr>"

definition example_mount :: element where
  "example_mount = \<lparr>clientWidth = 800, clientHeight = 600, childNodes = []\<rparr>"

definition example_session :: state where
  "example_session = session id example_env example_mount ''medium'' 0"

section \<open>Properties\<close>

subsection \<open>The particle loop\<close>

lemma length_write_y: "length (write_y f32 t i ps) = length ps"
  by (simp add: write_y_def Let_def)

lemma length_particles_loop: "length (particles_loop f32 t i ps) = length ps"
proof (induction f32 t i ps rule: particles_loop.induct)
  case (1 f32 t i ps)
  then show ?case
    by (subst particles_loop.simps) (simp add: length_write_y)
qed

lemma nth_write_y: "k mod 3 \<noteq> 1 \<Longrightarrow> write_y f32 t i ps ! k = ps ! k"
proof -
  assume k: "k mod 3 \<noteq> 1"
  have "(i * 3 + 1) mod 3 = 1" by presburger
  with k have "i * 3 + 1 \<noteq> k" by metis
  then show ?thesis by (simp add: write_y_def Let_def)
qed

lemma nth_particles_loop: "k mod 3 \<noteq> 1 \<Longrightarrow> particles_loop f32 t i ps ! k = ps ! k"
proof (induction f32 t i ps rule: particles_loop.induct)
  case (1 f32 t i ps)
  then show ?case
    by (subst particles_loop.simps) (simp add: nth_write_y)
qed

subsection \<open>The tick as one update of the state\<close>

lemma fst_animate:
  "fst (animate f32 sample ok s) =
      s\<lparr>callback_identifier := Suc (callback_identifier s),
         callbacks := callbacks s @ [Suc (callback_identifier s)],
         animationIdRef := Some (Suc (callback_identifier s)),
         time := sample,
         particlesMesh_rotation_y := sample * 0.2,
         particlesMesh_rotation_x := sample * 0.1,
         orb_rotation_x := sample * 0.5,
         orb_rotation_y := sample * 0.3,
         orb_scale := (1 + sin sample * 0.2, 1 + sin sample * 0.2, 1 + sin sample * 0.2),
         posArray := (posArray s)\<lparr>data := particles_loop f32 sample 0 (data (posArray s))\<rparr>,
         needsUpdate := True,
         light_intensity :=
           js_add (to_number (intensity_of (currentEnergy s))) (Finite (sin (sample * 2) * 0.5)),
         trace := trace s @
           [RequestAnimationFrame (Suc (callback_identifier s)), GetElapsedTime sample,
            if ok then Render else RenderThrew]\<rparr>"
  by (simp add: animate_def Let_def)

lemma snd_animate: "snd (animate f32 sample ok s) = (if ok then None else Some RenderFailure)"
  by (simp add: animate_def Let_def)

subsection \<open>Live sessions\<close>

lemma live_session: "live (session f32 e m lvl t0)"
  by (simp add: live_def session_def listen_def fst_animate build_scene_def)

lemma invoke_eq:
  "invoke f32 t ok s =
     (fst (animate f32 t ok s))\<lparr>uncaught := uncaught s @ (if ok then [] else [RenderFailure])\<rparr>"
  by (simp add: invoke_def animate_def Let_def)

lemma frame_live:
  "live s \<Longrightarrow> host_step f32 (Frame t ok) s = invoke f32 t ok (s\<lparr>callbacks := []\<rparr>)"
  by (simp add: live_def)

lemma live_step: "live s \<Longrightarrow> live (host_step f32 ev s)"
proof (cases ev)
  case (Frame t ok)
  assume "live s"
  then show ?thesis unfolding Frame
    by (simp add: live_def invoke_eq fst_animate)
next
  case (Resize w h)
  assume "live s"
  then show ?thesis unfolding Resize
    by (auto simp: live_def handleResize_def Let_def resized_def split: option.splits)
next
  case Detach
  assume "live s"
  then show ?thesis unfolding Detach by (simp add: live_def)
qed

lemma live_run: "live s \<Longrightarrow> live (run f32 evs s)"
  unfolding run_def by (induction evs arbitrary: s) (simp_all add: live_step)

lemma run_snoc: "run f32 (evs @ [ev]) s = host_step f32 ev (run f32 evs s)"
  by (simp add: run_def)

lemma frame_trace:
  "live s \<Longrightarrow> trace (host_step f32 (Frame t ok) s) =
     trace s @ [RequestAnimationFrame (Suc (callback_identifier s)), GetElapsedTime t,
                if ok then Render else RenderThrew]"
  by (simp add: frame_live invoke_eq fst_animate del: host_step.simps)

lemma frame_callbacks:
  "live s \<Longrightarrow> callbacks (host_step f32 (Frame t ok) s) = [Suc (callback_identifier s)]"
  by (simp add: frame_live invoke_eq fst_animate del: host_step.simps)

lemma frame_uncaught:
  "live s \<Longrightarrow> uncaught (host_step f32 (Frame t ok) s) =
     uncaught s @ (if ok then [] else [RenderFailure])"
  by (simp add: frame_live invoke_eq fst_animate del: host_step.simps)

lemma frame_time: "live s \<Longrightarrow> time (host_step f32 (Frame t ok) s) = t"
  by (simp add: frame_live invoke_eq fst_animate del: host_step.simps)

lemma trace_session:
  "trace (session f32 e m lvl t0) =
     [SetSize (clientWidth m) (clientHeight m), AppendChild Canvas,
      RequestAnimationFrame (Suc (frame_identifier e)), GetElapsedTime t0, Render,
      AddEventListener]"
  by (simp add: session_def listen_def fst_animate build_scene_def)

lemma uncaught_session: "uncaught (session f32 e m lvl t0) = []"
  by (simp add: session_def listen_def fst_animate build_scene_def)

lemma create_session: "create f32 e (Some m) lvl t0 True = Session (session f32 e m lvl t0)"
  by (simp add: create_def session_def animate_def Let_def)

subsection \<open>The scheduler\<close>

text \<open>
  Claim C1, as the code has it. In every state a session reaches, a display refresh
  runs one tick, and the tick first requests the next animation frame, then samples the
  clock, then updates and draws for that sample. Whether the draw returns or throws,
  the next tick is pending afterwards; a throw is not caught by the component and
  reaches the browser once, for that tick.
\<close>

theorem tick_schedules_first:
  "trace (host_step f32 (Frame t ok) (run f32 evs (session f32 e m lvl t0))) =
     trace (run f32 evs (session f32 e m lvl t0)) @
       [RequestAnimationFrame (Suc (callback_identifier (run f32 evs (session f32 e m lvl t0)))),
        GetElapsedTime t, if ok then Render else RenderThrew] \<and>
   time (host_step f32 (Frame t ok) (run f32 evs (session f32 e m lvl t0))) = t \<and>
   callbacks (host_step f32 (Frame t ok) (run f32 evs (session f32 e m lvl t0))) =
     [Suc (callback_identifier (run f32 evs (session f32 e m lvl t0)))] \<and>
   uncaught (host_step f32 (Frame t ok) (run f32 evs (session f32 e m lvl t0))) =
     uncaught (run f32 evs (session f32 e m lvl t0)) @ (if ok then [] else [RenderFailure])"
proof -
  have "live (run f32 evs (session f32 e m lvl t0))"
    by (rule live_run) (rule live_session)
  then show ?thesis
    by (simp only: frame_trace frame_callbacks frame_uncaught frame_time simp_thms)
qed

text \<open>
  Claim C1 as stated fails: in the example session the draw of the third tick throws
  (the first tick is the one the effect runs itself), the fourth tick is pending after
  it and is drawn at the next display refresh.
\<close>

theorem tick_after_failure_counterexample:
  "filter is_draw (trace (run id [Frame 1 True, Frame 2 False, Frame 3 True] example_session)) =
     [Render, Render, RenderThrew, Render] \<and>
   uncaught (run id [Frame 1 True, Frame 2 False] example_session) = [RenderFailure] \<and>
   callbacks (run id [Frame 1 True, Frame 2 False] example_session) \<noteq> []"
proof -
  let ?s0 = "example_session"
  let ?s1 = "run id [Frame 1 True] ?s0"
  let ?s2 = "run id [Frame 1 True, Frame 2 False] ?s0"
  let ?s3 = "run id [Frame 1 True, Frame 2 False, Frame 3 True] ?s0"
  have l0: "live ?s0" unfolding example_session_def by (rule live_session)
  have l1: "live ?s1" using l0 by (rule live_run)
  have l2: "live ?s2" using l0 by (rule live_run)
  have e1: "?s1 = host_step id (Frame 1 True) ?s0" by (simp add: run_def)
  have e2: "?s2 = host_step id (Frame 2 False) ?s1" by (simp add: run_def)
  have e3: "?s3 = host_step id (Frame 3 True) ?s2" by (simp add: run_def)
  have t0: "filter is_draw (trace ?s0) = [Render]"
    by (simp add: example_session_def trace_session)
  have t1: "filter is_draw (trace ?s1) = [Render, Render]"
    unfolding e1 using t0 by (simp add: frame_trace [OF l0] del: host_step.simps)
  have t2: "filter is_draw (trace ?s2) = [Render, Render, RenderThrew]"
    unfolding e2 using t1 by (simp add: frame_trace [OF l1] del: host_step.simps)
  have t3: "filter is_draw (trace ?s3) = [Render, Render, RenderThrew, Render]"
    unfolding e3 using t2 by (simp add: frame_trace [OF l2] del: host_step.simps)
  have u0: "uncaught ?s0 = []" by (simp add: example_session_def uncaught_session)
  have u1: "uncaught ?s1 = []"
    unfolding e1 using u0 by (simp add: frame_uncaught [OF l0] del: host_step.simps)
  have u2: "uncaught ?s2 = [RenderFailure]"
    unfolding e2 using u1 by (simp add: frame_uncaught [OF l1] del: host_step.simps)
  have c2: "callbacks ?s2 \<noteq> []" using l2 by (simp add: live_def)
  from t3 u2 c2 show ?thesis by blast
qed

subsection \<open>What a run leaves alone\<close>




lemma run_callbacks_random:
  "random_calls (run_callbacks f32 t ok hs s) = random_calls s"
  by (induction hs arbitrary: s) (simp_all add: invoke_eq fst_animate)



lemma host_step_random: "random_calls (host_step f32 ev s) = random_calls s"
  by (cases ev) (simp_all add: run_callbacks_random handleResize_def Let_def split: option.splits)



lemma run_random: "random_calls (run f32 evs s) = random_calls s"
  unfolding run_def by (induction evs arbitrary: s) (simp_all add: host_step_random)

lemma posArray_session:
  "posArray (session f32 e m lvl t0) =
     \<lparr>ident = 0,
      data = particles_loop f32 t0 0
               (map (\<lambda>i. f32 ((random e i - 0.5) * 10)) [0..<particlesCount * 3])\<rparr>"
  by (simp add: session_def listen_def fst_animate build_scene_def)

lemma posArray_dispose: "posArray (fst (dispose s)) = posArray s"
  by (simp add: dispose_def cancel_def release_def Let_def split: option.splits)

lemma run_callbacks_currentEnergy:
  "currentEnergy (run_callbacks f32 t ok hs s) = currentEnergy s"
  by (induction hs arbitrary: s) (simp_all add: invoke_eq fst_animate)

lemma host_step_currentEnergy: "currentEnergy (host_step f32 ev s) = currentEnergy s"
  by (cases ev) (simp_all add: run_callbacks_currentEnergy handleResize_def Let_def split: option.splits)

lemma run_currentEnergy: "currentEnergy (run f32 evs s) = currentEnergy s"
  unfolding run_def by (induction evs arbitrary: s) (simp_all add: host_step_currentEnergy)

lemma currentEnergy_session: "currentEnergy (session f32 e m lvl t0) = currentEnergy_of lvl"
  by (simp add: session_def listen_def fst_animate build_scene_def)

lemma currentEnergy_of_high: "currentEnergy_of ''high'' = Obj high"
  by (simp add: currentEnergy_of_def get_property_def energyColors_def)

subsection \<open>The particle buffer\<close>


text \<open>
  Claim C10. For every particle \<open>i\<close>, a tick leaves the x coordinate (index \<open>3 * i\<close>) and
  the z coordinate (index \<open>3 * i + 2\<close>) of the buffer as they were, and the length of the
  buffer too: only indices \<open>3 * i + 1\<close> are written. The rotation of the field is
  stored in the mesh.
\<close>

theorem tick_writes_y_only:
  "data (posArray (fst (animate f32 t ok s))) ! (3 * i) = data (posArray s) ! (3 * i) \<and>
   data (posArray (fst (animate f32 t ok s))) ! (3 * i + 2) = data (posArray s) ! (3 * i + 2) \<and>
   length (data (posArray (fst (animate f32 t ok s)))) = length (data (posArray s)) \<and>
   particlesMesh_rotation_y (fst (animate f32 t ok s)) = t * 0.2 \<and>
   particlesMesh_rotation_x (fst (animate f32 t ok s)) = t * 0.1"
proof -
  let ?ps = "data (posArray s)"
  have "(3 * i) mod 3 \<noteq> 1" by presburger
  then have x: "particles_loop f32 t 0 ?ps ! (3 * i) = ?ps ! (3 * i)"
    by (rule nth_particles_loop)
  have "(3 * i + 2) mod 3 \<noteq> 1" by presburger
  then have z: "particles_loop f32 t 0 ?ps ! (3 * i + 2) = ?ps ! (3 * i + 2)"
    by (rule nth_particles_loop)
  have d: "data (posArray (fst (animate f32 t ok s))) = particles_loop f32 t 0 ?ps"
    by (simp add: fst_animate)
  have ry: "particlesMesh_rotation_y (fst (animate f32 t ok s)) = t * 0.2"
    by (simp add: fst_animate)
  have rx: "particlesMesh_rotation_x (fst (animate f32 t ok s)) = t * 0.1"
    by (simp add: fst_animate)
  show ?thesis
    unfolding d using x z ry rx by (simp only: length_particles_loop simp_thms)
qed

subsection \<open>Orb and light\<close>

text \<open>
  Claim C7. After a tick whose clock sample is \<open>t\<close>, from any state, the orb's rotation
  about x is \<open>0.5 * t\<close>, about y \<open>0.3 * t\<close>, and its scale is \<open>1 + sin t * 0.2\<close> on all
  three axes; the same holds after a display refresh of a session, whatever happened
  before.
\<close>

theorem orb_after_tick:
  "orb_rotation_x (fst (animate f32 t ok s)) = 0.5 * t \<and>
   orb_rotation_y (fst (animate f32 t ok s)) = 0.3 * t \<and>
   orb_scale (fst (animate f32 t ok s)) =
     (1 + sin t * 0.2, 1 + sin t * 0.2, 1 + sin t * 0.2) \<and>
   orb_rotation_x (host_step f32 (Frame t ok) (run f32 evs (session f32 e m lvl t0))) = 0.5 * t \<and>
   orb_rotation_y (host_step f32 (Frame t ok) (run f32 evs (session f32 e m lvl t0))) = 0.3 * t \<and>
   orb_scale (host_step f32 (Frame t ok) (run f32 evs (session f32 e m lvl t0))) =
     (1 + sin t * 0.2, 1 + sin t * 0.2, 1 + sin t * 0.2)"
proof -
  have "live (run f32 evs (session f32 e m lvl t0))"
    by (rule live_run) (rule live_session)
  then show ?thesis
    by (simp add: frame_live invoke_eq fst_animate del: host_step.simps)
qed

text \<open>
  Claim C8. When the energy level selects a preset \<open>p\<close>, then after every tick with
  clock sample \<open>t\<close>, at any point of the session, the light's intensity is
  \<open>intensity p + sin (t * 2) * 0.5\<close>.
\<close>

theorem light_after_tick:
  assumes "currentEnergy_of lvl = Obj p"
  shows "light_intensity (host_step f32 (Frame t ok) (run f32 evs (session f32 e m lvl t0))) =
           Finite (intensity p + sin (t * 2) * 0.5) \<and>
         light_intensity (fst (animate f32 t ok (run f32 evs (session f32 e m lvl t0)))) =
           Finite (intensity p + sin (t * 2) * 0.5)"
proof -
  have "live (run f32 evs (session f32 e m lvl t0))"
    by (rule live_run) (rule live_session)
  then show ?thesis using assms
    by (simp add: frame_live invoke_eq fst_animate run_currentEnergy currentEnergy_session
        del: host_step.simps)
qed

theorem light_after_tick_witness:
  "currentEnergy_of ''high'' = Obj high \<and>
   light_intensity (host_step id (Frame 0 True) (run id [] (session id example_env example_mount ''high'' 0))) =
     Finite 2"
  using light_after_tick [of "''high''" high id 0 True "[]" example_env example_mount 0]
  by (simp add: currentEnergy_of_high high_def del: host_step.simps)

subsection \<open>Determinism of the particle update\<close>

lemma data_ticks:
  "data (posArray (ticks f32 xs s)) =
     fold (\<lambda>t ps. particles_loop f32 t 0 ps) (map fst xs) (data (posArray s))"
  unfolding ticks_def
  by (induction xs arbitrary: s) (simp_all add: fst_animate split: prod.splits)

lemma random_ticks: "random_calls (ticks f32 xs s) = random_calls s"
  unfolding ticks_def
  by (induction xs arbitrary: s) (simp_all add: fst_animate split: prod.splits)

text \<open>
  Claim C5. Two runs of ticks with the same clock samples, from two states that hold
  the same buffer contents and may differ in everything else (the preset, the outcomes
  of the draws, orb, light and browser state), end with the same buffer contents, and
  no tick calls \<^verbatim>\<open>Math.random\<close>.
\<close>

theorem update_deterministic:
  assumes "map fst xs = map fst ys" and "data (posArray s1) = data (posArray s2)"
  shows "data (posArray (ticks f32 xs s1)) = data (posArray (ticks f32 ys s2)) \<and>
         random_calls (ticks f32 xs s1) = random_calls s1 \<and>
         random_calls (ticks f32 ys s2) = random_calls s2"
  using assms by (simp add: data_ticks random_ticks)

theorem update_deterministic_witness:
  "map fst [(0, True), (1, True)] = map fst [(0::real, False), (1, True)] \<and>
   data (posArray (session id example_env example_mount ''high'' 0)) =
     data (posArray (session id example_env example_mount ''low'' 0)) \<and>
   data (posArray (ticks id [(0, True), (1, True)] (session id example_env example_mount ''high'' 0))) =
     data (posArray (ticks id [(0, False), (1, True)] (session id example_env example_mount ''low'' 0)))"
  using update_deterministic [of "[(0, True), (1, True)]" "[(0, False), (1, True)]"
      "session id example_env example_mount ''high'' 0"
      "session id example_env example_mount ''low'' 0" id]
  by (simp add: posArray_session)

subsection \<open>The energy level\<close>

lemma currentEnergy_of_unrecognized:
  "lvl \<notin> {''high'', ''medium'', ''low''} \<Longrightarrow> lvl \<notin> set Object_prototype \<Longrightarrow>
   currentEnergy_of lvl = Obj medium"
  by (simp add: currentEnergy_of_def get_property_def energyColors_def)

text \<open>
  Claim C6 at the energy level \<^verbatim>\<open>constructor\<close>: the key is not one of the three
  presets, the lookup finds the property that every object inherits from
  \<^verbatim>\<open>Object.prototype\<close>, that value is truthy, and so the result is not the preset
  \<^verbatim>\<open>medium\<close>.
\<close>

theorem currentEnergy_of_constructor:
  "currentEnergy_of ''constructor'' = Builtin ''constructor'' \<and>
   currentEnergy_of ''constructor'' \<noteq> Obj medium \<and>
   ''constructor'' \<notin> {''high'', ''medium'', ''low''}"
  by (simp add: currentEnergy_of_def get_property_def energyColors_def Object_prototype_def)

subsection \<open>Resize\<close>

lemma run_callbacks_mountRef: "mountRef (run_callbacks f32 t ok hs s) = mountRef s"
  by (induction hs arbitrary: s) (simp_all add: invoke_eq fst_animate)

lemma host_step_attached:
  "ev \<noteq> Detach \<Longrightarrow> mountRef s \<noteq> None \<Longrightarrow> mountRef (host_step f32 ev s) \<noteq> None"
  by (cases ev) (auto simp: run_callbacks_mountRef handleResize_def Let_def split: option.splits)

lemma run_attached:
  "Detach \<notin> set evs \<Longrightarrow> mountRef s \<noteq> None \<Longrightarrow> mountRef (run f32 evs s) \<noteq> None"
  unfolding run_def
proof (induction evs arbitrary: s)
  case Nil
  then show ?case by simp
next
  case (Cons ev evs)
  from Cons.prems have "mountRef (host_step f32 ev s) \<noteq> None"
    by (intro host_step_attached) auto
  with Cons show ?case by simp
qed

lemma resize_viewport:
  "live s \<Longrightarrow> mountRef s \<noteq> None \<Longrightarrow>
   viewport (host_step f32 (Resize w h) s) = (js_div w h, (75, js_div w h, 0.1, 1000), w, h)"
  by (auto simp: live_def viewport_def handleResize_def Let_def resized_def split: option.splits)

lemma mountRef_session_eq:
  "mountRef (session f32 e m lvl t0) = Some (m\<lparr>childNodes := childNodes m @ [Canvas]\<rparr>)"
  by (simp add: session_def listen_def fst_animate build_scene_def)

text \<open>
  Claim C9. While the mount element is attached, after any sequence of resizes, display
  refreshes and ticks that ends with a resize to \<open>w\<close> by \<open>h\<close>, the camera's aspect, the
  projection and the renderer's size are those of \<open>w\<close> and \<open>h\<close> alone.
\<close>

theorem resize_last_write_wins:
  assumes "Detach \<notin> set evs"
  shows "viewport (run f32 (evs @ [Resize w h]) (session f32 e m lvl t0)) =
           (js_div w h, (75, js_div w h, 0.1, 1000), w, h)"
proof -
  have "live (run f32 evs (session f32 e m lvl t0))"
    by (rule live_run) (rule live_session)
  moreover have "mountRef (run f32 evs (session f32 e m lvl t0)) \<noteq> None"
    using assms by (rule run_attached) (simp add: mountRef_session_eq)
  ultimately show ?thesis
    unfolding run_snoc by (rule resize_viewport)
qed

theorem resize_last_write_wins_witness:
  "Detach \<notin> set [Resize 800 600] \<and>
   viewport (run id ([Resize 800 600] @ [Resize 400 300]) example_session) =
     (Finite (4 / 3), (75, Finite (4 / 3), 0.1, 1000), 400, 300)"
  using resize_last_write_wins [of "[Resize 800 600]" id 400 300 example_env example_mount "''medium''" 0]
  by (simp add: example_session_def js_div_def)

subsection \<open>Cleanup\<close>

lemma dispose_live:
  "live s \<Longrightarrow> dispose s =
     (s\<lparr>resize_listener := False, callbacks := [],
        mountRef := map_option (\<lambda>m. m\<lparr>childNodes := remove1 Canvas (childNodes m)\<rparr>) (mountRef s),
        released := {ParticlesGeometry, ParticlesMaterial, OrbGeometry, OrbMaterial, Renderer},
        trace := trace s @
          [RemoveEventListener, CancelAnimationFrame (callback_identifier s)] @
          (case mountRef s of None \<Rightarrow> [] | Some m \<Rightarrow> [RemoveChild Canvas]) @
          [Dispose ParticlesGeometry, Dispose ParticlesMaterial, Dispose OrbGeometry,
           Dispose OrbMaterial, Dispose Renderer]\<rparr>, None)"
  by (cases "mountRef s") (simp_all add: live_def dispose_def cancel_def release_def Let_def)

lemma stopped_dispose: "live s \<Longrightarrow> stopped (fst (dispose s))"
  by (simp add: dispose_live stopped_def)

lemma stopped_step:
  "stopped s \<Longrightarrow> host_step f32 ev s = s\<lparr>mountRef := mountRef (host_step f32 ev s)\<rparr>"
  by (cases ev) (simp_all add: stopped_def Let_def)

lemma stopped_step_stopped: "stopped s \<Longrightarrow> stopped (host_step f32 ev s)"
  by (cases ev) (simp_all add: stopped_def Let_def)

lemma stopped_run:
  "stopped s \<Longrightarrow> run f32 evs s = s\<lparr>mountRef := mountRef (run f32 evs s)\<rparr>"
proof (induction evs arbitrary: s)
  case Nil
  then show ?case by (simp add: run_def)
next
  case (Cons ev evs)
  let ?s' = "host_step f32 ev s"
  have r: "run f32 (ev # evs) s = run f32 evs ?s'" by (simp add: run_def)
  have "stopped ?s'" using Cons.prems by (rule stopped_step_stopped)
  then have "run f32 evs ?s' = ?s'\<lparr>mountRef := mountRef (run f32 evs ?s')\<rparr>"
    by (rule Cons.IH)
  also have "\<dots> = (s\<lparr>mountRef := mountRef ?s'\<rparr>)\<lparr>mountRef := mountRef (run f32 evs ?s')\<rparr>"
    using stopped_step [OF Cons.prems, of f32 ev] by simp
  also have "\<dots> = s\<lparr>mountRef := mountRef (run f32 evs ?s')\<rparr>" by simp
  finally show ?case unfolding r .
qed

lemma handleResize_null: "mountRef s = None \<Longrightarrow> handleResize s = s"
  by (simp add: handleResize_def)

lemma dispose_cleaned:
  "cleaned h s \<Longrightarrow> mountRef s = None \<Longrightarrow>
     dispose s =
       (s\<lparr>trace := trace s @
            [RemoveEventListener, CancelAnimationFrame h, Dispose ParticlesGeometry,
             Dispose ParticlesMaterial, Dispose OrbGeometry, Dispose OrbMaterial,
             Dispose Renderer]\<rparr>, None)"
  by (simp add: cleaned_def stopped_def dispose_def cancel_def release_def Let_def)

lemma dispose_times_cleaned:
  "cleaned h s \<Longrightarrow> mountRef s = None \<Longrightarrow>
     dispose_times n s =
       (s\<lparr>trace := trace s @ concat (replicate n
            [RemoveEventListener, CancelAnimationFrame h, Dispose ParticlesGeometry,
             Dispose ParticlesMaterial, Dispose OrbGeometry, Dispose OrbMaterial,
             Dispose Renderer])\<rparr>, None)"
proof (induction n arbitrary: s)
  case 0
  then show ?case by simp
next
  case (Suc n)
  let ?calls = "[RemoveEventListener, CancelAnimationFrame h, Dispose ParticlesGeometry,
             Dispose ParticlesMaterial, Dispose OrbGeometry, Dispose OrbMaterial,
             Dispose Renderer]"
  let ?s' = "s\<lparr>trace := trace s @ ?calls\<rparr>"
  have d: "dispose s = (?s', None)" using Suc.prems by (rule dispose_cleaned)
  have c: "cleaned h ?s'" using Suc.prems(1) by (simp add: cleaned_def stopped_def)
  have m: "mountRef ?s' = None" using Suc.prems(2) by simp
  have "dispose_times (Suc n) s = dispose_times n ?s'" by (simp add: d)
  also have "\<dots> = (?s'\<lparr>trace := trace ?s' @ concat (replicate n ?calls)\<rparr>, None)"
    using c m by (rule Suc.IH)
  finally show ?case by simp
qed

lemma cleaned_dispose: "live s \<Longrightarrow> cleaned (callback_identifier s) (fst (dispose s))"
  by (simp add: dispose_live cleaned_def stopped_def live_def)

lemma cleaned_run:
  assumes "cleaned h s"
  shows "cleaned h (run f32 evs s)"
proof -
  from assms have "stopped s" by (simp add: cleaned_def)
  then have r: "run f32 evs s = s\<lparr>mountRef := mountRef (run f32 evs s)\<rparr>"
    by (rule stopped_run)
  show ?thesis by (subst r) (use assms in \<open>simp add: cleaned_def stopped_def\<close>)
qed

lemma callback_identifier_session:
  "callback_identifier (session f32 e m lvl t0) = Suc (frame_identifier e)"
  by (simp add: session_def listen_def fst_animate build_scene_def)

lemma renderer_width_session: "renderer_width (session f32 e m lvl t0) = clientWidth m"
  by (simp add: session_def listen_def fst_animate build_scene_def)

lemma dispose_not_child:
  "mountRef s = Some el \<Longrightarrow> Canvas \<notin> set (childNodes el) \<Longrightarrow>
   snd (dispose s) = Some NotFoundError"
  by (auto simp: dispose_def cancel_def Let_def split: option.splits)

text \<open>
  Claim C2, as the code has it. The first cleanup of a session raises nothing. After
  it the browser holds neither a pending tick nor the listener, so that any later
  sequence of display refreshes and resizes changes nothing of the session but the
  mount element that React and the browser own. Whenever the mount ref is null after
  the cleanup, a call of \<^verbatim>\<open>handleResize\<close> changes nothing, and \<open>n\<close> further cleanups
  raise nothing and change no field of the state: each of them only repeats its calls
  (the removal of the listener, the cancellation of the tick that was already
  cancelled, the five disposals), which the trace records.
\<close>

theorem dispose_then_inert:
  "snd (dispose (run f32 evs (session f32 e m lvl t0))) = None \<and>
   run f32 evs' (fst (dispose (run f32 evs (session f32 e m lvl t0)))) =
     (fst (dispose (run f32 evs (session f32 e m lvl t0))))
       \<lparr>mountRef := mountRef (run f32 evs' (fst (dispose (run f32 evs (session f32 e m lvl t0)))))\<rparr> \<and>
   (mountRef (run f32 evs' (fst (dispose (run f32 evs (session f32 e m lvl t0))))) = None \<longrightarrow>
      handleResize (run f32 evs' (fst (dispose (run f32 evs (session f32 e m lvl t0))))) =
        run f32 evs' (fst (dispose (run f32 evs (session f32 e m lvl t0)))) \<and>
      dispose_times n (run f32 evs' (fst (dispose (run f32 evs (session f32 e m lvl t0))))) =
        ((run f32 evs' (fst (dispose (run f32 evs (session f32 e m lvl t0)))))
           \<lparr>trace := trace (run f32 evs' (fst (dispose (run f32 evs (session f32 e m lvl t0))))) @
              concat (replicate n
                [RemoveEventListener,
                 CancelAnimationFrame (callback_identifier (run f32 evs (session f32 e m lvl t0))),
                 Dispose ParticlesGeometry, Dispose ParticlesMaterial, Dispose OrbGeometry,
                 Dispose OrbMaterial, Dispose Renderer])\<rparr>,
         None))"
proof -
  let ?s = "run f32 evs (session f32 e m lvl t0)"
  let ?d = "fst (dispose ?s)"
  let ?x = "run f32 evs' ?d"
  have l: "live ?s" by (rule live_run) (rule live_session)
  have a: "snd (dispose ?s) = None" by (simp add: dispose_live [OF l])
  have b: "?x = ?d\<lparr>mountRef := mountRef ?x\<rparr>"
    by (rule stopped_run) (rule stopped_dispose [OF l])
  have c: "cleaned (callback_identifier ?s) ?x"
    by (rule cleaned_run) (rule cleaned_dispose [OF l])
  have h: "handleResize ?x = ?x" if "mountRef ?x = None"
    using that by (rule handleResize_null)
  have t: "dispose_times n ?x =
      (?x\<lparr>trace := trace ?x @ concat (replicate n
         [RemoveEventListener, CancelAnimationFrame (callback_identifier ?s),
          Dispose ParticlesGeometry, Dispose ParticlesMaterial, Dispose OrbGeometry,
          Dispose OrbMaterial, Dispose Renderer])\<rparr>, None)" if "mountRef ?x = None"
    using c that by (rule dispose_times_cleaned)
  from a b h t show ?thesis by blast
qed

theorem dispose_then_inert_witness:
  "mountRef (run id [Detach] (fst (dispose example_session))) = None \<and>
   handleResize (run id [Detach] (fst (dispose example_session))) =
     run id [Detach] (fst (dispose example_session)) \<and>
   dispose_times 2 (run id [Detach] (fst (dispose example_session))) =
     ((run id [Detach] (fst (dispose example_session)))
        \<lparr>trace := trace (run id [Detach] (fst (dispose example_session))) @
           [RemoveEventListener, CancelAnimationFrame 1,
            Dispose ParticlesGeometry, Dispose ParticlesMaterial, Dispose OrbGeometry,
            Dispose OrbMaterial, Dispose Renderer,
            RemoveEventListener, CancelAnimationFrame 1,
            Dispose ParticlesGeometry, Dispose ParticlesMaterial, Dispose OrbGeometry,
            Dispose OrbMaterial, Dispose Renderer]\<rparr>,
      None)"
proof -
  have m: "mountRef (run id [Detach] (fst (dispose example_session))) = None"
    by (simp add: run_def)
  have r: "run id [] (session id example_env example_mount ''medium'' 0) = example_session"
    by (simp add: run_def example_session_def)
  have i: "callback_identifier example_session = 1"
    by (simp add: example_session_def callback_identifier_session example_env_def)
  have n: "concat (replicate 2 xs) = xs @ xs" for xs :: "event list"
    by (simp add: numeral_2_eq_2)
  note th = dispose_then_inert [of id "[]" example_env example_mount "''medium''" 0 "[Detach]" 2]
  from th [unfolded r i n append.simps] m show ?thesis by blast
qed

text \<open>
  Claim C2 as stated fails, in the example session, whose mount element stays attached:
  the second cleanup throws, since the canvas is no longer a child of the element; a
  call of \<^verbatim>\<open>animate\<close> after the cleanup requests an animation frame again; and after
  the element was resized to 400 by 400, a call of \<^verbatim>\<open>handleResize\<close> after the
  cleanup changes the camera and the size of the released renderer.
\<close>

theorem dispose_twice_counterexample:
  "snd (dispose (fst (dispose example_session))) = Some NotFoundError \<and>
   callbacks (fst (dispose example_session)) = [] \<and>
   callbacks (fst (animate id 1 True (fst (dispose example_session)))) \<noteq> [] \<and>
   viewport (handleResize (run id [Resize 400 400] (fst (dispose example_session)))) \<noteq>
     viewport (fst (dispose example_session))"
proof -
  have l: "live example_session" unfolding example_session_def by (rule live_session)
  have m: "mountRef example_session = Some (example_mount\<lparr>childNodes := [Canvas]\<rparr>)"
    by (simp add: example_session_def mountRef_session_eq example_mount_def)
  have m': "mountRef (fst (dispose example_session)) = Some (example_mount\<lparr>childNodes := []\<rparr>)"
    by (simp add: dispose_live [OF l] m)
  have a: "snd (dispose (fst (dispose example_session))) = Some NotFoundError"
    using m' by (rule dispose_not_child) simp
  have b: "callbacks (fst (dispose example_session)) = []"
    by (simp add: dispose_live [OF l])
  have c: "callbacks (fst (animate id 1 True (fst (dispose example_session)))) \<noteq> []"
    by (simp add: fst_animate)
  have w: "renderer_width (fst (dispose example_session)) = 800"
    by (simp add: dispose_live [OF l])
       (simp add: example_session_def renderer_width_session example_mount_def)
  have st: "stopped (fst (dispose example_session))" by (rule stopped_dispose [OF l])
  have r: "run id [Resize 400 400] (fst (dispose example_session)) =
      (fst (dispose example_session))
        \<lparr>mountRef := Some (resized 400 400 (example_mount\<lparr>childNodes := []\<rparr>))\<rparr>"
    using st by (simp add: run_def stopped_def Let_def m')
  have w': "renderer_width
      (handleResize (run id [Resize 400 400] (fst (dispose example_session)))) = 400"
    unfolding r by (simp add: handleResize_def resized_def)
  have d: "viewport (handleResize (run id [Resize 400 400] (fst (dispose example_session)))) \<noteq>
     viewport (fst (dispose example_session))"
    using w w' by (auto simp: viewport_def)
  from a b c d show ?thesis by blast
qed

text \<open>
  Claim C3. In every state a session reaches nothing is released and one tick is
  pending. The cleanup removes the listener, cancels that tick, removes the canvas when
  the mount element is attached, and only then releases the two geometries, the two
  materials and the renderer. Afterwards no tick is pending and no listener is
  registered, and no later display refresh or resize makes a call or touches the
  particle buffer.
\<close>

theorem cancel_before_release:
  "released (run f32 evs (session f32 e m lvl t0)) = {} \<and>
   callbacks (run f32 evs (session f32 e m lvl t0)) =
     [callback_identifier (run f32 evs (session f32 e m lvl t0))] \<and>
   trace (fst (dispose (run f32 evs (session f32 e m lvl t0)))) =
     trace (run f32 evs (session f32 e m lvl t0)) @
     [RemoveEventListener,
      CancelAnimationFrame (callback_identifier (run f32 evs (session f32 e m lvl t0)))] @
     (case mountRef (run f32 evs (session f32 e m lvl t0)) of
        None \<Rightarrow> [] | Some el \<Rightarrow> [RemoveChild Canvas]) @
     [Dispose ParticlesGeometry, Dispose ParticlesMaterial, Dispose OrbGeometry,
      Dispose OrbMaterial, Dispose Renderer] \<and>
   callbacks (fst (dispose (run f32 evs (session f32 e m lvl t0)))) = [] \<and>
   \<not> resize_listener (fst (dispose (run f32 evs (session f32 e m lvl t0)))) \<and>
   released (fst (dispose (run f32 evs (session f32 e m lvl t0)))) =
     {ParticlesGeometry, ParticlesMaterial, OrbGeometry, OrbMaterial, Renderer} \<and>
   trace (run f32 evs' (fst (dispose (run f32 evs (session f32 e m lvl t0))))) =
     trace (fst (dispose (run f32 evs (session f32 e m lvl t0)))) \<and>
   posArray (run f32 evs' (fst (dispose (run f32 evs (session f32 e m lvl t0))))) =
     posArray (run f32 evs (session f32 e m lvl t0))"
proof -
  let ?s = "run f32 evs (session f32 e m lvl t0)"
  let ?d = "fst (dispose ?s)"
  have l: "live ?s" by (rule live_run) (rule live_session)
  have r: "run f32 evs' ?d = ?d\<lparr>mountRef := mountRef (run f32 evs' ?d)\<rparr>"
    by (rule stopped_run) (rule stopped_dispose [OF l])
  have t: "trace (run f32 evs' ?d) = trace ?d" by (subst r) simp
  have p: "posArray (run f32 evs' ?d) = posArray ?d" by (subst r) simp
  have q: "posArray ?d = posArray ?s" by (rule posArray_dispose)
  from l have a: "released ?s = {}" and b: "callbacks ?s = [callback_identifier ?s]"
    by (simp_all add: live_def)
  show ?thesis
    unfolding t p q using a b by (simp add: dispose_live [OF l])
qed

end
